theory Spec2Isabelle
  imports Complex_Main
begin

section \<open>The DGHV primitives of \<open>main.py\<close>\<close>

subsection \<open>Errors\<close>

text \<open>
  The source itself contains no \<open>raise\<close>. Two exceptions can still come out of it:
  \<open>ZeroDivisionError\<close> from the operator \<open>%\<close> in \<open>decrypt\<close> and \<open>ValueError\<close> from
  \<open>secrets.randbelow\<close> in \<open>encrypt\<close> (a bound that is not positive). The other three
  constructors are the error names of the specification; no function of the source
  produces them.
\<close>

datatype error =
    ZeroDivisionError
  | ValueError
  | InvalidParameters
  | InvalidPlaintext
  | InvalidKey

subsection \<open>Parameters\<close>

text \<open>
  \<open>class DGHVParams\<close>: the constructor stores the two sizes and the two derived bounds
  \<open>2 ** q_size\<close> and \<open>2 ** r_size\<close>. The sizes are natural numbers here (the
  specification's unsigned bit lengths; with a negative exponent Python's \<open>**\<close> leaves
  the integers). In the specification's vocabulary \<open>q_size\<close> is \<open>key_bits\<close>,
  \<open>r_size\<close> is \<open>noise_bits\<close>, \<open>largest_q\<close> is \<open>max_multiplier\<close> and \<open>largest_r\<close>
  is \<open>max_noise\<close>; the specification's \<open>Parameters::new(noise_bits, key_bits)\<close> is
  \<open>DGHVParams(key_bits, noise_bits)\<close>.
\<close>

record DGHVParams =
  q_size :: nat
  r_size :: nat
  largest_q :: int
  largest_r :: int

definition DGHVParams_init :: "nat \<Rightarrow> nat \<Rightarrow> DGHVParams" where
  "DGHVParams_init qs rs =
     \<lparr> q_size = qs, r_size = rs, largest_q = 2 ^ qs, largest_r = 2 ^ rs \<rparr>"

text \<open>
  The outcome of the call \<open>DGHVParams(q_size, r_size)\<close>: an exception or the new
  object. The body of \<open>__init__\<close> has no failing statement, so it is always the object.
\<close>

definition DGHVParams_new :: "nat \<Rightarrow> nat \<Rightarrow> error + DGHVParams" where
  "DGHVParams_new qs rs = Inr (DGHVParams_init qs rs)"

subsection \<open>Python's integer operators\<close>

text \<open>
  \<open>a % b\<close> on Python's integers is the remainder of floor division, with the sign of
  the divisor, and raises \<open>ZeroDivisionError\<close> for \<open>b = 0\<close>. On \<open>int\<close>, HOL's \<open>mod\<close>
  is the remainder of floor division too, but \<open>a mod 0 = a\<close>.
\<close>

definition py_mod :: "int \<Rightarrow> int \<Rightarrow> error + int" where
  "py_mod a b = (if b = 0 then Inl ZeroDivisionError else Inr (a mod b))"

text \<open>
  \<open>secrets.randbelow(n)\<close>: all outcomes of one call. It raises \<open>ValueError\<close> unless
  \<open>n\<close> is positive, and otherwise returns some integer of \<open>[0, n)\<close>.
\<close>

definition randbelow :: "int \<Rightarrow> (error + int) set" where
  "randbelow n = (if n \<le> 0 then {Inl ValueError} else Inr ` {0..<n})"

subsection \<open>Encryption and decryption\<close>

text \<open>
  The return expression of \<open>encrypt\<close>, with the values \<open>r\<close> and \<open>q\<close> of its two
  \<open>randbelow\<close> calls as explicit inputs.
\<close>

definition encrypt_with :: "int \<Rightarrow> int \<Rightarrow> int \<Rightarrow> int \<Rightarrow> DGHVParams \<Rightarrow> int" where
  "encrypt_with r q plaintext public_key params = public_key * q + 2 * r + plaintext"

text \<open>
  \<open>encrypt\<close>: all outcomes of one call. \<open>r\<close> is drawn first, then \<open>q\<close>; an exception
  of either draw ends the call.
\<close>

definition encrypt :: "int \<Rightarrow> int \<Rightarrow> DGHVParams \<Rightarrow> (error + int) set" where
  "encrypt plaintext public_key params =
     (\<Union>x \<in> randbelow (largest_r params).
        case x of
          Inl e \<Rightarrow> {Inl e}
        | Inr r \<Rightarrow>
            (\<Union>y \<in> randbelow (largest_q params).
               case y of
                 Inl e \<Rightarrow> {Inl e}
               | Inr q \<Rightarrow> {Inr (encrypt_with r q plaintext public_key params)}))"

text \<open>
  \<open>decrypt\<close>: \<open>(ciphertext % private_key) % 2\<close>. The argument \<open>params\<close> is not read.
\<close>

definition decrypt :: "int \<Rightarrow> int \<Rightarrow> DGHVParams \<Rightarrow> error + int" where
  "decrypt ciphertext private_key params =
     (case py_mod ciphertext private_key of
        Inl e \<Rightarrow> Inl e
      | Inr m' \<Rightarrow> py_mod m' 2)"

subsection \<open>Public key generation\<close>

text \<open>
  Modelled from the spec: the body of \<open>DGHVPublicKey.__init__(self, private_key, params)\<close>.
  The source has the signature of this constructor and no statement under it. The
  specification's \<open>generate_public_key\<close> fails with \<open>InvalidParameters\<close> if the
  private key is even or non-positive; otherwise it draws \<open>q0\<close> from
  \<open>[0, max_multiplier)\<close> and \<open>r0\<close> from \<open>[0, max_noise)\<close> and computes
  \<open>private_key * q0 + 2 * r0\<close>. All outcomes of one call.
\<close>

definition generate_public_key :: "int \<Rightarrow> DGHVParams \<Rightarrow> (error + int) set" where
  "generate_public_key private_key params =
     (if even private_key \<or> private_key \<le> 0 then {Inl InvalidParameters}
      else
        (\<Union>x \<in> randbelow (largest_q params).
           case x of
             Inl e \<Rightarrow> {Inl e}
           | Inr q0 \<Rightarrow>
               (\<Union>y \<in> randbelow (largest_r params).
                  case y of
                    Inl e \<Rightarrow> {Inl e}
                  | Inr r0 \<Rightarrow> {Inr (private_key * q0 + 2 * r0)})))"

subsection \<open>The distribution of the low bit of a ciphertext\<close>

text \<open>
  \<open>secrets.randbelow\<close> is uniform and the two draws of \<open>encrypt\<close> are independent, so
  every pair \<open>(r, q)\<close> of \<open>draws\<close> is equally likely. The probability that
  \<open>c mod 2 = b\<close> for a ciphertext \<open>c\<close> of \<open>plaintext\<close> is then
  \<open>parity_count b plaintext public_key params\<close> over the number of pairs.
\<close>

definition draws :: "DGHVParams \<Rightarrow> (int \<times> int) set" where
  "draws params = {0..<largest_r params} \<times> {0..<largest_q params}"

definition parity_count :: "int \<Rightarrow> int \<Rightarrow> int \<Rightarrow> DGHVParams \<Rightarrow> nat" where
  "parity_count b plaintext public_key params =
     card {(r, q) \<in> draws params. encrypt_with r q plaintext public_key params mod 2 = b}"

text \<open>Exchanging a draw \<open>q\<close> with its neighbour of the other parity.\<close>

definition flip_low :: "int \<Rightarrow> int" where
  "flip_low q = q + 1 - 2 * (q mod 2)"

section \<open>Basic facts\<close>

lemma decrypt_nonzero:
  "private_key \<noteq> 0 \<Longrightarrow>
     decrypt ciphertext private_key params = Inr ((ciphertext mod private_key) mod 2)"
  by (simp add: decrypt_def py_mod_def)

lemma decrypt_zero:
  "decrypt ciphertext 0 params = Inl ZeroDivisionError"
  by (simp add: decrypt_def py_mod_def)

lemma encrypt_init:
  "encrypt plaintext public_key (DGHVParams_init qs rs) =
     (\<lambda>(r, q). Inr (encrypt_with r q plaintext public_key (DGHVParams_init qs rs)))
       ` ({0..<2 ^ rs} \<times> {0..<2 ^ qs})"
  by (auto simp add: encrypt_def randbelow_def DGHVParams_init_def image_iff)

lemma encrypt_withI:
  assumes "0 \<le> r" "r < 2 ^ rs" "0 \<le> q" "q < 2 ^ qs"
  shows "Inr (encrypt_with r q plaintext public_key (DGHVParams_init qs rs))
           \<in> encrypt plaintext public_key (DGHVParams_init qs rs)"
proof -
  from assms have mem: "(r, q) \<in> {0..<2 ^ rs} \<times> {0..<2 ^ qs}" by simp
  show ?thesis
    unfolding encrypt_init by (rule rev_image_eqI [OF mem]) simp
qed

lemma residue_of_small_noise:
  fixes p k n :: int
  assumes "0 \<le> n" "n < p"
  shows "(p * k + n) mod p = n"
  using assms by simp

lemma generate_public_key_init:
  assumes "0 < p" "odd p"
  shows "generate_public_key p (DGHVParams_init qs rs) =
     (\<lambda>(q0, r0). Inr (p * q0 + 2 * r0)) ` ({0..<2 ^ qs} \<times> {0..<2 ^ rs})"
  using assms
  by (auto simp add: generate_public_key_def randbelow_def DGHVParams_init_def image_iff)

lemma flip_low_involution: "flip_low (flip_low q) = q"
  unfolding flip_low_def by presburger

lemma flip_low_range:
  assumes "0 < n" "0 \<le> q" "q < 2 ^ n"
  shows "0 \<le> flip_low q \<and> flip_low q < 2 ^ n"
proof -
  obtain k where k: "n = Suc k" using assms(1) by (cases n) auto
  have "(2::int) ^ n = 2 * 2 ^ k" by (simp add: k)
  then obtain t :: int where t: "(2::int) ^ n = 2 * t" by blast
  show ?thesis using assms(2,3) unfolding flip_low_def t by presburger
qed

lemma flip_low_parity:
  assumes "odd pk"
  shows "(pk * flip_low q + 2 * r + 1) mod 2 = (pk * q + 2 * r + 0) mod 2"
proof -
  have "even ((pk * flip_low q + 2 * r + 1) - (pk * q + 2 * r + 0))"
    using assms by (simp add: flip_low_def algebra_simps)
  then show ?thesis by (simp only: mod_eq_dvd_iff)
qed

lemma flip_low_parity':
  assumes "odd pk"
  shows "(pk * flip_low q + 2 * r + 0) mod 2 = (pk * q + 2 * r + 1) mod 2"
  using flip_low_parity [OF assms, of "flip_low q" r] by (simp add: flip_low_involution)

lemma even_key_parity:
  "encrypt_with r q m 8 params mod 2 = m mod 2"
  unfolding encrypt_with_def by presburger

section \<open>Decryption\<close>

text \<open>
  C2. For a positive private key, \<open>decrypt\<close> returns \<open>m' mod 2\<close>, where \<open>m'\<close> is the
  mathematical residue of the ciphertext modulo the key: the one integer of
  \<open>[0, private_key)\<close> that differs from the ciphertext by a multiple of the key,
  whatever the sign of the ciphertext.
\<close>

theorem decrypt_residue_mod_2:
  assumes "0 < private_key"
  shows "\<exists>m'. 0 \<le> m' \<and> m' < private_key
            \<and> private_key dvd (ciphertext - m')
            \<and> (\<forall>n. 0 \<le> n \<and> n < private_key \<and> private_key dvd (ciphertext - n) \<longrightarrow> n = m')
            \<and> decrypt ciphertext private_key params = Inr (m' mod 2)"
proof -
  let ?m = "ciphertext mod private_key"
  have range: "0 \<le> ?m" "?m < private_key"
    using assms by simp_all
  have cong: "private_key dvd (ciphertext - ?m)"
    by (rule dvd_minus_mod)
  have uniq: "n = ?m"
    if "0 \<le> n \<and> n < private_key \<and> private_key dvd (ciphertext - n)" for n
  proof -
    from that have "private_key dvd ciphertext - n" by simp
    then have "ciphertext mod private_key = n mod private_key"
      by (simp only: mod_eq_dvd_iff)
    moreover from that have "n mod private_key = n" by simp
    ultimately show ?thesis by simp
  qed
  have res: "decrypt ciphertext private_key params = Inr (?m mod 2)"
    using assms by (simp add: decrypt_nonzero)
  from range cong uniq res show ?thesis by blast
qed

theorem decrypt_residue_mod_2_witness:
  "(0::int) < 5
   \<and> (\<exists>m'. 0 \<le> m' \<and> m' < 5 \<and> 5 dvd (- 7 - m')
          \<and> (\<forall>n. 0 \<le> n \<and> n < 5 \<and> 5 dvd (- 7 - n) \<longrightarrow> n = m')
          \<and> decrypt (- 7) 5 (DGHVParams_init 8 4) = Inr (m' mod 2))
   \<and> decrypt (- 7) 5 (DGHVParams_init 8 4) = Inr 1"
proof -
  have h: "(0::int) < 5" by simp
  have v: "decrypt (- 7) 5 (DGHVParams_init 8 4) = Inr 1"
    by (simp add: decrypt_def py_mod_def)
  show ?thesis
    using h v decrypt_residue_mod_2 [OF h, of "- 7" "DGHVParams_init 8 4"] by blast
qed

text \<open>
  C9. \<open>decrypt\<close> is a function of the ciphertext and the key alone: with a nonzero
  key it returns a value, and the same one under any two parameter objects.
\<close>

theorem decrypt_ignores_params:
  assumes "private_key \<noteq> 0"
  shows "decrypt ciphertext private_key params1 = decrypt ciphertext private_key params2
         \<and> (\<exists>b. decrypt ciphertext private_key params1 = Inr b)"
  using assms by (simp add: decrypt_nonzero)

theorem decrypt_ignores_params_witness:
  "(7::int) \<noteq> 0
   \<and> decrypt 45 7 (DGHVParams_init 8 4) = decrypt 45 7 (DGHVParams_init 3 1)
   \<and> (\<exists>b. decrypt 45 7 (DGHVParams_init 8 4) = Inr b)"
proof -
  have h: "(7::int) \<noteq> 0" by simp
  show ?thesis
    using h decrypt_ignores_params [OF h, of 45 "DGHVParams_init 8 4" "DGHVParams_init 3 1"]
    by blast
qed

text \<open>
  C10. With a nonzero private key, even or negative ones included, and a ciphertext
  of any sign, \<open>decrypt\<close> returns 0 or 1. It fails for the key 0 and for no other
  input, and the failure is the \<open>ZeroDivisionError\<close> of the operator \<open>%\<close>.
\<close>

theorem decrypt_fails_only_at_zero_key:
  "(private_key \<noteq> 0 \<longrightarrow>
      (\<exists>b. decrypt ciphertext private_key params = Inr b \<and> (b = 0 \<or> b = 1)))
   \<and> (private_key = 0 \<longrightarrow> decrypt ciphertext private_key params = Inl ZeroDivisionError)"
proof -
  have "ciphertext mod private_key mod 2 = 0 \<or> ciphertext mod private_key mod 2 = 1"
    by presburger
  then show ?thesis
    by (auto simp add: decrypt_nonzero decrypt_zero)
qed

theorem decrypt_fails_only_at_zero_key_witness:
  "(- 4 \<noteq> (0::int)
      \<and> (\<exists>b. decrypt (- 7) (- 4) (DGHVParams_init 8 4) = Inr b \<and> (b = 0 \<or> b = 1))
      \<and> decrypt (- 7) (- 4) (DGHVParams_init 8 4) = Inr 1)
   \<and> ((0::int) = 0 \<and> decrypt (- 7) 0 (DGHVParams_init 8 4) = Inl ZeroDivisionError)"
proof -
  have v: "decrypt (- 7) (- 4) (DGHVParams_init 8 4) = Inr 1"
    by (simp add: decrypt_def py_mod_def)
  show ?thesis
    using v
      decrypt_fails_only_at_zero_key [of "- 4" "- 7" "DGHVParams_init 8 4"]
      decrypt_fails_only_at_zero_key [of 0 "- 7" "DGHVParams_init 8 4"]
    by simp
qed

text \<open>
  C6, as stated, fails: \<open>decrypt\<close> accepts the even key 2 and the negative key -3 and
  returns a bit.
\<close>

theorem decrypt_accepts_invalid_keys:
  "\<not> (0 < (2::int) \<and> odd (2::int)) \<and> decrypt 5 2 (DGHVParams_init 8 4) = Inr 1
   \<and> \<not> (0 < (- 3::int) \<and> odd (- 3::int)) \<and> decrypt 5 (- 3) (DGHVParams_init 8 4) = Inr 1"
  by (simp add: decrypt_def py_mod_def)

text \<open>
  C6, amended. \<open>decrypt\<close> validates no key: it never fails with \<open>InvalidKey\<close>, it
  returns a value for every nonzero key, and in particular it does not fail when the
  key is a positive odd integer.
\<close>

theorem decrypt_never_invalid_key:
  "decrypt ciphertext private_key params \<noteq> Inl InvalidKey
   \<and> (private_key \<noteq> 0 \<longrightarrow> (\<exists>b. decrypt ciphertext private_key params = Inr b))
   \<and> (0 < private_key \<and> odd private_key \<longrightarrow>
        (\<exists>b. decrypt ciphertext private_key params = Inr b))"
  by (cases "private_key = 0") (simp_all add: decrypt_nonzero decrypt_zero)

theorem decrypt_never_invalid_key_witness:
  "decrypt 45 7 (DGHVParams_init 8 4) \<noteq> Inl InvalidKey
   \<and> (7::int) \<noteq> 0 \<and> 0 < (7::int) \<and> odd (7::int)
   \<and> (\<exists>b. decrypt 45 7 (DGHVParams_init 8 4) = Inr b)"
  using decrypt_never_invalid_key [of 45 7 "DGHVParams_init 8 4"] by simp

section \<open>Parameters\<close>

text \<open>
  C4, as stated, fails: the constructor accepts the sizes 0 and 0, and it reports
  \<open>InvalidParameters\<close> for none of \<open>Parameters::new(0, 3)\<close>,
  \<open>Parameters::new(3, 0)\<close> and \<open>Parameters::new(3, 3)\<close> (the specification's
  \<open>Parameters::new(noise_bits, key_bits)\<close> is \<open>DGHVParams(key_bits, noise_bits)\<close>).
\<close>

theorem params_new_accepts_zero_sizes:
  "DGHVParams_new 0 0 = Inr \<lparr> q_size = 0, r_size = 0, largest_q = 1, largest_r = 1 \<rparr>
   \<and> DGHVParams_new 0 3 \<noteq> Inl InvalidParameters
   \<and> DGHVParams_new 3 0 \<noteq> Inl InvalidParameters
   \<and> DGHVParams_new 3 3 \<noteq> Inl InvalidParameters"
  by (simp add: DGHVParams_new_def DGHVParams_init_def)

text \<open>
  C4, amended. The constructor validates nothing: for all sizes it succeeds, and the
  object holds the sizes and the bounds \<open>2 ^ q_size\<close> and \<open>2 ^ r_size\<close>.
\<close>

theorem params_new_always_succeeds:
  "DGHVParams_new qs rs =
     Inr \<lparr> q_size = qs, r_size = rs, largest_q = 2 ^ qs, largest_r = 2 ^ rs \<rparr>"
  by (simp add: DGHVParams_new_def DGHVParams_init_def)

section \<open>Encryption\<close>

text \<open>
  C3. Under constructed parameters the bounds of the two draws are \<open>2 ^ q_size\<close>
  and \<open>2 ^ r_size\<close>, and the outcomes of \<open>encrypt\<close> are exactly the integers
  \<open>public_key * q + 2 * r + plaintext\<close> with \<open>q\<close> in \<open>[0, 2 ^ q_size)\<close> and \<open>r\<close>
  in \<open>[0, 2 ^ r_size)\<close>, in exact integer arithmetic.
\<close>

theorem encrypt_formula:
  "largest_q (DGHVParams_init qs rs) = 2 ^ qs
   \<and> largest_r (DGHVParams_init qs rs) = 2 ^ rs
   \<and> encrypt plaintext public_key (DGHVParams_init qs rs) =
       {Inr (public_key * q + 2 * r + plaintext) | q r.
          0 \<le> q \<and> q < 2 ^ qs \<and> 0 \<le> r \<and> r < 2 ^ rs}"
proof -
  have "encrypt plaintext public_key (DGHVParams_init qs rs) =
       {Inr (public_key * q + 2 * r + plaintext) | q r.
          0 \<le> q \<and> q < 2 ^ qs \<and> 0 \<le> r \<and> r < 2 ^ rs}"
  proof (intro set_eqI iffI)
    fix x :: "error + int"
    assume "x \<in> encrypt plaintext public_key (DGHVParams_init qs rs)"
    then obtain r q where "x = Inr (public_key * q + 2 * r + plaintext)"
      "0 \<le> q" "q < 2 ^ qs" "0 \<le> r" "r < 2 ^ rs"
      unfolding encrypt_init by (auto simp add: encrypt_with_def)
    then show "x \<in> {Inr (public_key * q + 2 * r + plaintext) | q r.
          0 \<le> q \<and> q < 2 ^ qs \<and> 0 \<le> r \<and> r < 2 ^ rs}"
      by blast
  next
    fix x :: "error + int"
    assume "x \<in> {Inr (public_key * q + 2 * r + plaintext) | q r.
          0 \<le> q \<and> q < 2 ^ qs \<and> 0 \<le> r \<and> r < 2 ^ rs}"
    then obtain r q where x: "x = Inr (public_key * q + 2 * r + plaintext)"
      and mem: "(r, q) \<in> {0..<2 ^ rs} \<times> {0..<2 ^ qs}"
      by auto
    show "x \<in> encrypt plaintext public_key (DGHVParams_init qs rs)"
      unfolding encrypt_init x
      by (rule rev_image_eqI [OF mem]) (simp add: encrypt_with_def)
  qed
  then show ?thesis by (simp add: DGHVParams_init_def)
qed

text \<open>
  C5, as stated, fails: \<open>encrypt\<close> accepts the plaintext 2 and returns a ciphertext
  for it (11, with the draws \<open>r = 1\<close> and \<open>q = 1\<close> under the public key 7).
\<close>

theorem encrypt_accepts_plaintext_2:
  "2 \<noteq> (0::int) \<and> 2 \<noteq> (1::int)
   \<and> Inr 11 \<in> encrypt 2 7 (DGHVParams_init 2 1)
   \<and> Inl InvalidPlaintext \<notin> encrypt 2 7 (DGHVParams_init 2 1)"
proof -
  have "(1, 1) \<in> {0..<(2::int) ^ 1} \<times> {0..<(2::int) ^ 2}" by simp
  then have "Inr (encrypt_with 1 1 2 7 (DGHVParams_init 2 1)) \<in> encrypt 2 7 (DGHVParams_init 2 1)"
    unfolding encrypt_init by (rule rev_image_eqI) simp
  moreover have "Inl InvalidPlaintext \<notin> encrypt 2 7 (DGHVParams_init 2 1)"
    unfolding encrypt_init by auto
  ultimately show ?thesis by (simp add: encrypt_with_def)
qed

text \<open>
  C5, amended. \<open>encrypt\<close> validates no plaintext: it never fails with
  \<open>InvalidPlaintext\<close>, and under constructed parameters it has an outcome and every
  outcome is the ciphertext \<open>public_key * q + 2 * r + plaintext\<close> of some draws \<open>q\<close> in
  \<open>[0, 2 ^ q_size)\<close> and \<open>r\<close> in \<open>[0, 2 ^ r_size)\<close>, for the plaintexts 0 and 1 and
  for every other integer.
\<close>

theorem encrypt_never_invalid_plaintext:
  "Inl InvalidPlaintext \<notin> encrypt plaintext public_key params
   \<and> encrypt plaintext public_key (DGHVParams_init qs rs) \<noteq> {}
   \<and> (\<forall>x \<in> encrypt plaintext public_key (DGHVParams_init qs rs).
         \<exists>q r. 0 \<le> q \<and> q < 2 ^ qs \<and> 0 \<le> r \<and> r < 2 ^ rs
               \<and> x = Inr (public_key * q + 2 * r + plaintext))"
proof -
  have "Inl InvalidPlaintext \<notin> encrypt plaintext public_key params"
    by (auto simp add: encrypt_def randbelow_def split: sum.splits if_splits)
  moreover have "encrypt plaintext public_key (DGHVParams_init qs rs) \<noteq> {}"
    unfolding encrypt_init by simp
  moreover have "\<exists>q r. 0 \<le> q \<and> q < 2 ^ qs \<and> 0 \<le> r \<and> r < 2 ^ rs
                   \<and> x = Inr (public_key * q + 2 * r + plaintext)"
    if "x \<in> encrypt plaintext public_key (DGHVParams_init qs rs)" for x
  proof -
    from that obtain r q where "0 \<le> r" "r < 2 ^ rs" "0 \<le> q" "q < 2 ^ qs"
      and "x = Inr (public_key * q + 2 * r + plaintext)"
      unfolding encrypt_init by (auto simp add: encrypt_with_def)
    then show ?thesis by blast
  qed
  ultimately show ?thesis by blast
qed

theorem encrypt_never_invalid_plaintext_witness:
  "Inl InvalidPlaintext \<notin> encrypt 2 7 (DGHVParams_init 2 1)
   \<and> encrypt 2 7 (DGHVParams_init 2 1) \<noteq> {}
   \<and> Inr 11 \<in> encrypt 2 7 (DGHVParams_init 2 1)
   \<and> (\<exists>q r. (0::int) \<le> q \<and> q < 2 ^ 2 \<and> (0::int) \<le> r \<and> r < 2 ^ 1
             \<and> (Inr 11 :: error + int) = Inr (7 * q + 2 * r + 2))
   \<and> Inr 0 \<notin> encrypt 2 7 (DGHVParams_init 2 1)"
proof -
  note all = encrypt_never_invalid_plaintext [of 2 7 "DGHVParams_init 2 1" 2 1]
  have "Inr (encrypt_with 1 1 2 7 (DGHVParams_init 2 1)) \<in> encrypt 2 7 (DGHVParams_init 2 1)"
    by (rule encrypt_withI) simp_all
  then have mem: "Inr 11 \<in> encrypt 2 7 (DGHVParams_init 2 1)"
    by (simp add: encrypt_with_def)
  have ex: "\<exists>q r. (0::int) \<le> q \<and> q < 2 ^ 2 \<and> (0::int) \<le> r \<and> r < 2 ^ 1
             \<and> (Inr 11 :: error + int) = Inr (7 * q + 2 * r + 2)"
    using all mem by blast
  have out: "Inr 0 \<notin> encrypt 2 7 (DGHVParams_init 2 1)"
  proof
    assume "Inr 0 \<in> encrypt 2 7 (DGHVParams_init 2 1)"
    with all obtain q r :: int where "0 \<le> q" "0 \<le> r"
      and "(Inr 0 :: error + int) = Inr (7 * q + 2 * r + 2)"
      by blast
    then show False by simp
  qed
  from all mem ex out show ?thesis by blast
qed

section \<open>Round trip\<close>

text \<open>
  C1, as stated, fails at the private key 1, which is odd and positive: with the
  public key \<open>0 = 1 * 0 + 2 * 0\<close> and the draws \<open>q = 0\<close> and \<open>r = 0\<close> the noise
  term is 0, strictly below one half, the ciphertext of the bit 1 is 1, and
  \<open>decrypt\<close> returns \<open>(1 % 1) % 2 = 0\<close>.
\<close>

theorem roundtrip_fails_at_key_1:
  "(1::nat) \<le> 1 \<and> (1::nat) < 2
   \<and> 0 < (1::int) \<and> odd (1::int)
   \<and> (0::int) = 1 * 0 + 2 * 0
   \<and> real_of_int (2 * 0 * 0 + 2 * 0) < real_of_int 1 / 2
   \<and> Inr (encrypt_with 0 0 1 0 (DGHVParams_init 2 1)) \<in> encrypt 1 0 (DGHVParams_init 2 1)
   \<and> decrypt (encrypt_with 0 0 1 0 (DGHVParams_init 2 1)) 1 (DGHVParams_init 2 1) = Inr 0
   \<and> Inr 0 \<noteq> (Inr 1 :: error + int)"
proof -
  have "Inr (encrypt_with 0 0 1 0 (DGHVParams_init 2 1)) \<in> encrypt 1 0 (DGHVParams_init 2 1)"
    by (rule encrypt_withI) simp_all
  then show ?thesis
    by (simp add: decrypt_def py_mod_def encrypt_with_def)
qed

text \<open>
  C1, amended. For valid parameters, an odd private key \<open>p\<close> greater than 1, a public
  key \<open>p * q0 + 2 * r0\<close> with \<open>q0\<close> and \<open>r0\<close> in their ranges, a bit \<open>m\<close> and draws
  \<open>q\<close> and \<open>r\<close> in their ranges: if the noise term \<open>2 * r0 * q + 2 * r\<close> is strictly
  below \<open>p / 2\<close> (as a real number), then the ciphertext of these draws is an outcome
  of \<open>encrypt\<close> and \<open>decrypt\<close> returns \<open>m\<close> for it.
\<close>

theorem roundtrip_under_noise_bound:
  assumes params: "1 \<le> rs" "rs < qs"
    and key: "0 < p" "odd p" "p \<noteq> 1"
    and pk: "public_key = p * q0 + 2 * r0" "0 \<le> q0" "q0 < 2 ^ qs" "0 \<le> r0" "r0 < 2 ^ rs"
    and bit: "m = 0 \<or> m = 1"
    and draw: "0 \<le> q" "q < 2 ^ qs" "0 \<le> r" "r < 2 ^ rs"
    and noise: "real_of_int (2 * r0 * q + 2 * r) < real_of_int p / 2"
  shows "Inr (encrypt_with r q m public_key (DGHVParams_init qs rs))
           \<in> encrypt m public_key (DGHVParams_init qs rs)
         \<and> decrypt (encrypt_with r q m public_key (DGHVParams_init qs rs)) p
             (DGHVParams_init qs rs) = Inr m"
proof -
  let ?P = "DGHVParams_init qs rs"
  define a where "a = r0 * q"
  have a0: "0 \<le> a" using pk(4) draw(1) by (simp add: a_def)
  have "real_of_int (2 * (2 * r0 * q + 2 * r)) < real_of_int p"
    using noise by simp
  then have "2 * (2 * r0 * q + 2 * r) < p"
    by (simp only: of_int_less_iff)
  then have small: "2 * (2 * a + 2 * r) < p"
    by (simp add: a_def algebra_simps)
  have p3: "3 \<le> p" using key by presburger
  have lo: "0 \<le> 2 * a + 2 * r + m" using a0 draw(3) bit by auto
  have hi: "2 * a + 2 * r + m < p" using small p3 bit by auto
  have "encrypt_with r q m public_key ?P = p * (q0 * q) + (2 * a + 2 * r + m)"
    by (simp add: encrypt_with_def pk(1) a_def algebra_simps)
  then have "encrypt_with r q m public_key ?P mod p = 2 * a + 2 * r + m"
    using residue_of_small_noise [OF lo hi] by simp
  moreover have "(2 * a + 2 * r + m) mod 2 = m" using bit by presburger
  ultimately have "decrypt (encrypt_with r q m public_key ?P) p ?P = Inr m"
    using key(1) by (simp add: decrypt_nonzero)
  moreover have "Inr (encrypt_with r q m public_key ?P) \<in> encrypt m public_key ?P"
    using draw by (intro encrypt_withI)
  ultimately show ?thesis by simp
qed

theorem roundtrip_under_noise_bound_witness:
  "(1::nat) \<le> 1 \<and> (1::nat) < 2
   \<and> 0 < (101::int) \<and> odd (101::int) \<and> (101::int) \<noteq> 1
   \<and> (305::int) = 101 * 3 + 2 * 1
   \<and> real_of_int (2 * 1 * 2 + 2 * 1) < real_of_int 101 / 2
   \<and> Inr (encrypt_with 1 2 1 305 (DGHVParams_init 2 1)) \<in> encrypt 1 305 (DGHVParams_init 2 1)
   \<and> decrypt (encrypt_with 1 2 1 305 (DGHVParams_init 2 1)) 101 (DGHVParams_init 2 1) = Inr 1
   \<and> encrypt_with 1 2 1 305 (DGHVParams_init 2 1) = 613"
proof -
  have "Inr (encrypt_with 1 2 1 305 (DGHVParams_init 2 1)) \<in> encrypt 1 305 (DGHVParams_init 2 1)
     \<and> decrypt (encrypt_with 1 2 1 305 (DGHVParams_init 2 1)) 101 (DGHVParams_init 2 1) = Inr 1"
    by (rule roundtrip_under_noise_bound [where ?q0.0 = 3 and ?r0.0 = 1]) simp_all
  then show ?thesis by (simp add: encrypt_with_def)
qed

section \<open>Public key generation\<close>

text \<open>
  C7. For an odd positive private key \<open>p\<close>, the outcomes of public key generation
  are exactly the integers \<open>p * q0 + 2 * r0\<close> with \<open>q0\<close> in \<open>[0, max_multiplier)\<close>
  and \<open>r0\<close> in \<open>[0, max_noise)\<close>.
\<close>

theorem generate_public_key_formula:
  assumes "0 < p" "odd p"
  shows "generate_public_key p (DGHVParams_init qs rs) =
           {Inr (p * q0 + 2 * r0) | q0 r0.
              0 \<le> q0 \<and> q0 < 2 ^ qs \<and> 0 \<le> r0 \<and> r0 < 2 ^ rs}"
proof (intro set_eqI iffI)
  fix x :: "error + int"
  assume "x \<in> generate_public_key p (DGHVParams_init qs rs)"
  then obtain q0 r0 where "x = Inr (p * q0 + 2 * r0)"
    "0 \<le> q0" "q0 < 2 ^ qs" "0 \<le> r0" "r0 < 2 ^ rs"
    unfolding generate_public_key_init [OF assms] by auto
  then show "x \<in> {Inr (p * q0 + 2 * r0) | q0 r0.
              0 \<le> q0 \<and> q0 < 2 ^ qs \<and> 0 \<le> r0 \<and> r0 < 2 ^ rs}"
    by blast
next
  fix x :: "error + int"
  assume "x \<in> {Inr (p * q0 + 2 * r0) | q0 r0.
              0 \<le> q0 \<and> q0 < 2 ^ qs \<and> 0 \<le> r0 \<and> r0 < 2 ^ rs}"
  then obtain q0 r0 where x: "x = Inr (p * q0 + 2 * r0)"
    and mem: "(q0, r0) \<in> {0..<2 ^ qs} \<times> {0..<2 ^ rs}"
    by auto
  show "x \<in> generate_public_key p (DGHVParams_init qs rs)"
    unfolding generate_public_key_init [OF assms] x
    by (rule rev_image_eqI [OF mem]) simp
qed

theorem generate_public_key_formula_witness:
  "0 < (3::int) \<and> odd (3::int)
   \<and> Inr 8 \<in> generate_public_key 3 (DGHVParams_init 2 1)
   \<and> Inr 12 \<notin> generate_public_key 3 (DGHVParams_init 2 1)"
proof -
  have h: "0 < (3::int)" "odd (3::int)" by simp_all
  have eq: "generate_public_key 3 (DGHVParams_init 2 1) =
      {Inr (3 * q0 + 2 * r0) | q0 r0. 0 \<le> q0 \<and> q0 < 2 ^ 2 \<and> 0 \<le> r0 \<and> r0 < 2 ^ 1}"
    by (rule generate_public_key_formula [OF h])
  have "(8::int) = 3 * 2 + 2 * 1 \<and> (0::int) \<le> 2 \<and> (2::int) < 2 ^ 2 \<and> (0::int) \<le> 1 \<and> (1::int) < 2 ^ 1"
    by simp
  then have a: "Inr 8 \<in> generate_public_key 3 (DGHVParams_init 2 1)"
    unfolding eq by blast
  have b: "Inr 12 \<notin> generate_public_key 3 (DGHVParams_init 2 1)"
    unfolding eq by (auto; presburger)
  from a b show ?thesis by simp
qed

section \<open>The low bit of a ciphertext\<close>

text \<open>
  C8, as stated, fails for an even public key, such as \<open>8 = 3 * 2 + 2 * 1\<close>: under
  \<open>DGHVParams(2, 1)\<close> all 8 pairs of draws give an even ciphertext for the bit 0 and
  none does for the bit 1, so \<open>c mod 2\<close> is the plaintext.
\<close>

theorem parity_reveals_bit_under_even_key:
  "parity_count 0 0 8 (DGHVParams_init 2 1) = 8
   \<and> parity_count 0 1 8 (DGHVParams_init 2 1) = 0"
proof -
  let ?P = "DGHVParams_init 2 1"
  have d: "draws ?P = {0..<2} \<times> {0..<4}"
    by (simp add: draws_def DGHVParams_init_def)
  have "{(r, q) \<in> draws ?P. encrypt_with r q 0 8 ?P mod 2 = 0} = {0..<2} \<times> {0..<4}"
    unfolding d by (auto simp add: even_key_parity)
  then have a: "parity_count 0 0 8 ?P = 8"
    by (simp add: parity_count_def)
  have "{(r, q) \<in> draws ?P. encrypt_with r q 1 8 ?P mod 2 = 0} = {}"
    by (auto simp add: even_key_parity)
  then have b: "parity_count 0 1 8 ?P = 0"
    by (simp only: parity_count_def card.empty)
  from a b show ?thesis by simp
qed

text \<open>
  C8, amended. For valid parameters and an odd public key, each value of \<open>c mod 2\<close>
  comes from as many pairs of draws for the bit 0 as for the bit 1: the low bit of
  the ciphertext has the same distribution for both plaintexts.
\<close>

theorem parity_count_odd_key:
  assumes "1 \<le> rs" "rs < qs" "odd public_key"
  shows "parity_count b 0 public_key (DGHVParams_init qs rs)
       = parity_count b 1 public_key (DGHVParams_init qs rs)"
proof -
  let ?P = "DGHVParams_init qs rs"
  let ?S = "\<lambda>m. {(r, q) \<in> draws ?P. encrypt_with r q m public_key ?P mod 2 = b}"
  let ?f = "\<lambda>(r, q). (r, flip_low q)"
  have qs: "0 < qs" using assms by simp
  have "bij_betw ?f (?S 0) (?S 1)"
  proof (rule bij_betw_byWitness [where f' = ?f])
    show "\<forall>a \<in> ?S 0. ?f (?f a) = a"
      by (auto simp add: flip_low_involution)
    show "\<forall>a \<in> ?S 1. ?f (?f a) = a"
      by (auto simp add: flip_low_involution)
    show "?f ` ?S 0 \<subseteq> ?S 1"
      using flip_low_range [OF qs] flip_low_parity [OF assms(3)]
      by (auto simp add: draws_def DGHVParams_init_def encrypt_with_def)
    show "?f ` ?S 1 \<subseteq> ?S 0"
      using flip_low_range [OF qs] flip_low_parity' [OF assms(3)]
      by (auto simp add: draws_def DGHVParams_init_def encrypt_with_def)
  qed
  then have "card (?S 0) = card (?S 1)" by (rule bij_betw_same_card)
  then show ?thesis by (simp only: parity_count_def)
qed

theorem parity_count_odd_key_witness:
  "(1::nat) \<le> 1 \<and> (1::nat) < 2 \<and> odd (7::int)
   \<and> parity_count 0 0 7 (DGHVParams_init 2 1) = parity_count 0 1 7 (DGHVParams_init 2 1)
   \<and> parity_count 1 0 7 (DGHVParams_init 2 1) = parity_count 1 1 7 (DGHVParams_init 2 1)"
proof -
  have h: "(1::nat) \<le> 1" "(1::nat) < 2" "odd (7::int)" by simp_all
  show ?thesis
    using h parity_count_odd_key [OF h, of 0] parity_count_odd_key [OF h, of 1] by simp
qed

end
